theory Spec2Isabelle
  imports Complex_Main
begin

section \<open>SimbodyModel: initialisation of a model through the physics engine\<close>

text \<open>
  \<^verbatim>\<open>SimbodyModel::Init\<close> and \<^verbatim>\<open>SimbodyModel::Load\<close> only call into other objects
  (links, grippers, the physics engine, joints, the joint publisher). The embedding
  records every such call, in the order the code makes it, in a trace of events; the
  trace is the state that is threaded through the loops of \<^verbatim>\<open>Init\<close>.

  Of the calls made, only \<^verbatim>\<open>Joint::Init\<close> stands inside a \<^verbatim>\<open>try\<close> block, so it
  is the one call whose exception the code itself handles: a joint carries the
  outcome of its \<^verbatim>\<open>Init\<close> (\<open>init_throws\<close>). The other callees are recorded as calls
  that return.
\<close>

record joint =
  jname :: string
  init_throws :: bool

text \<open>
  A \<^verbatim>\<open>msgs::Joint\<close> message after \<^verbatim>\<open>Joint::FillMsg\<close>. The body of \<^verbatim>\<open>FillMsg\<close> belongs to
  the joint classes; the message is identified by the joint that filled it.
\<close>

datatype joint_msg = JointMsg string

definition FillMsg :: "joint \<Rightarrow> joint_msg" where
  "FillMsg j = JointMsg (jname j)"

text \<open>
  The result of \<^verbatim>\<open>dynamic_pointer_cast<SimbodyPhysics>(GetWorld()->GetPhysicsEngine())\<close>
  is non-null exactly for a Simbody engine.
\<close>

datatype physics_engine = SimbodyPhysics | OtherPhysics

datatype event =
    SetInitialRelativePose string
  | SetRelativePose string
  | LinkInit string
  | GripperInit string
  | InitModel string
  | JointInit string
  | GzErr string
  | Publish string joint_msg

text \<open>
  The children of a model are \<^verbatim>\<open>Base\<close> objects: links, nested models, or objects of
  another type, which \<^verbatim>\<open>Init\<close> skips. \<open>Publish n msg\<close> is a call of \<^verbatim>\<open>Publish(msg)\<close> on
  the \<^verbatim>\<open>jointPub\<close> member of the model named \<open>n\<close>.
\<close>

datatype model =
  Model (mname: string) (children: "base list") (grippers: "string list")
    (joints: "joint list")
and base =
    Link string
  | SubModel model
  | OtherBase string

text \<open>The gripper loop.\<close>

fun init_grippers :: "string list \<Rightarrow> event list \<Rightarrow> event list" where
  "init_grippers [] tr = tr"
| "init_grippers (g # gs) tr = init_grippers gs (tr @ [GripperInit g])"

text \<open>
  The first joint loop. The result says whether the loop ran to its end (\<open>True\<close>) or
  left \<^verbatim>\<open>Init\<close> through the \<^verbatim>\<open>catch\<close> block (\<open>False\<close>), after \<^verbatim>\<open>gzerr\<close>.
\<close>

fun init_joints :: "joint list \<Rightarrow> event list \<Rightarrow> bool \<times> event list" where
  "init_joints [] tr = (True, tr)"
| "init_joints (j # js) tr =
     (if init_throws j
      then (False, tr @ [JointInit (jname j), GzErr ''Init joint failed''])
      else init_joints js (tr @ [JointInit (jname j)]))"

text \<open>The second joint loop: fill and publish one message per joint.\<close>

fun publish_joints :: "string \<Rightarrow> joint list \<Rightarrow> event list \<Rightarrow> event list" where
  "publish_joints n [] tr = tr"
| "publish_joints n (j # js) tr = publish_joints n js (tr @ [Publish n (FillMsg j)])"

text \<open>
  \<^verbatim>\<open>SimbodyModel::Init\<close>, with the loop over the children and its body. A nested model
  is cast to \<^verbatim>\<open>SimbodyModel\<close> and initialised by the same function.
\<close>

fun Init :: "physics_engine \<Rightarrow> model \<Rightarrow> event list \<Rightarrow> event list"
  and init_children :: "physics_engine \<Rightarrow> base list \<Rightarrow> event list \<Rightarrow> event list"
  and init_child :: "physics_engine \<Rightarrow> base \<Rightarrow> event list \<Rightarrow> event list"
where
  "Init eng (Model n cs gs js) tr =
     (let tr1 = tr @ [SetInitialRelativePose n, SetRelativePose n];
          tr2 = init_children eng cs tr1;
          tr3 = init_grippers gs tr2;
          tr4 = (if eng = SimbodyPhysics then tr3 @ [InitModel n] else tr3)
      in case init_joints js tr4 of
           (False, tr5) \<Rightarrow> tr5
         | (True, tr5) \<Rightarrow> publish_joints n js tr5)"
| "init_children eng [] tr = tr"
| "init_children eng (c # cs) tr = init_children eng cs (init_child eng c tr)"
| "init_child eng (Link l) tr = tr @ [LinkInit l]"
| "init_child eng (SubModel m) tr = Init eng m tr"
| "init_child eng (OtherBase b) tr = tr"

text \<open>
  \<^verbatim>\<open>SimbodyModel::Load\<close>. \<^verbatim>\<open>Model::Load\<close> is defined in the base class; it is a
  parameter here, a transformer of the state of the model.
\<close>

definition SimbodyModel_Load :: "('sdf \<Rightarrow> 'st \<Rightarrow> 'st) \<Rightarrow> 'sdf \<Rightarrow> 'st \<Rightarrow> 'st" where
  "SimbodyModel_Load Model_Load sdf st = Model_Load sdf st"

text \<open>
  The calls made by the first joint loop, as a list: \<^verbatim>\<open>Init\<close> is called on the joints in
  order, up to and including the first joint whose \<^verbatim>\<open>Init\<close> throws, and the \<^verbatim>\<open>catch\<close>
  block then reports the failure.
\<close>

fun joint_calls :: "joint list \<Rightarrow> event list" where
  "joint_calls [] = []"
| "joint_calls (j # js) =
     JointInit (jname j) #
       (if init_throws j then [GzErr ''Init joint failed''] else joint_calls js)"

text \<open>
  The calls \<^verbatim>\<open>Init\<close> makes before it reaches its joint loops: the two pose setters, the
  initialisation of the children, of the grippers, and \<^verbatim>\<open>InitModel\<close> on a Simbody engine.
\<close>

definition before_joints :: "physics_engine \<Rightarrow> model \<Rightarrow> event list" where
  "before_joints eng m =
     [SetInitialRelativePose (mname m), SetRelativePose (mname m)] @
     concat (map (\<lambda>c. init_child eng c []) (children m)) @
     map GripperInit (grippers m) @
     (if eng = SimbodyPhysics then [InitModel (mname m)] else [])"

section \<open>Visual: scene nodes of the rendering engine\<close>

text \<open>
  \<^verbatim>\<open>Visual\<close> holds a pointer to an Ogre scene node and a few fields of its own. The
  objects of the rendering engine live in a store: scene nodes are addressed by their
  index in \<open>nodes\<close>, a pointer is an index or \<open>None\<close> for \<^verbatim>\<open>NULL\<close>. A member function
  that dereferences a null or invalid pointer, or that leaves through an exception of
  Ogre (an accessor out of range, a scene node name already in use), has no result: it
  returns \<open>None\<close>.

  The render-engine switch \<^verbatim>\<open>Simulator::Instance()->GetRenderEngineEnabled()\<close> is the
  first argument \<open>en\<close> of every function that reads it.
\<close>

subsection \<open>Math types\<close>

text \<open>
  Gazebo's \<^verbatim>\<open>Vector3\<close>, \<^verbatim>\<open>Quatern\<close> (components \<^verbatim>\<open>u, x, y, z\<close>) and \<^verbatim>\<open>Pose3d\<close>, and Ogre's
  \<^verbatim>\<open>Ogre::Vector3\<close> and \<^verbatim>\<open>Ogre::Quaternion\<close> (components \<^verbatim>\<open>w, x, y, z\<close>). Their headers
  are not among the sources. The two sides do not share a scalar type: the components
  of Gazebo's types are \<^verbatim>\<open>double\<close>s, those of Ogre's are \<^verbatim>\<open>Ogre::Real\<close>s, which are
  \<^verbatim>\<open>float\<close>s. The scalar type is a type parameter of each type, \<open>'d\<close> on Gazebo's side and
  \<open>'f\<close> on Ogre's in what follows.
\<close>

datatype 'a Vector3 = Vector3 'a 'a 'a

datatype 'a Quatern = Quatern 'a 'a 'a 'a

datatype 'a Pose3d = Pose3d (pos: "'a Vector3") (rot: "'a Quatern")

datatype 'a Ogre_Vector3 = Ogre_Vector3 'a 'a 'a

datatype 'a Ogre_Quaternion = Ogre_Quaternion 'a 'a 'a 'a

text \<open>
  Modelled from the spec: the default constructors \<^verbatim>\<open>Vector3()\<close>, \<^verbatim>\<open>Quatern()\<close> and
  \<^verbatim>\<open>Pose3d()\<close> are declared in the math headers, which are not among the sources.
  \<^verbatim>\<open>Vector3()\<close> is the zero vector; \<^verbatim>\<open>Quatern()\<close> is taken to be the identity rotation, the
  value \<^verbatim>\<open>Quatern(1,0,0,0)\<close> that \<^verbatim>\<open>Visual::Init\<close> gives its \<^verbatim>\<open>rpy\<close> parameter.
\<close>

definition Vector3_default :: "'a::zero Vector3" where
  "Vector3_default = Vector3 0 0 0"

definition Quatern_default :: "'a::{zero,one} Quatern" where
  "Quatern_default = Quatern 1 0 0 0"

definition Pose3d_default :: "'a::{zero,one} Pose3d" where
  "Pose3d_default = Pose3d Vector3_default Quatern_default"

text \<open>
  What happens to a scalar on its way into a scene node and back, none of it in the
  sources: \<open>narrow\<close> is the conversion of a \<^verbatim>\<open>double\<close> argument to the \<^verbatim>\<open>Ogre::Real\<close>
  parameter of \<^verbatim>\<open>setPosition\<close> and \<^verbatim>\<open>setOrientation\<close> (rounding to the nearest \<^verbatim>\<open>float\<close>),
  \<open>widen\<close> the conversion of an \<^verbatim>\<open>Ogre::Real\<close> to a \<^verbatim>\<open>double\<close> in an assignment such as
  \<^verbatim>\<open>pos.x = vpos.x\<close>, and \<open>normalise\<close> is \<^verbatim>\<open>Ogre::Quaternion::normalise\<close>, which
  \<^verbatim>\<open>Ogre::Node::setOrientation\<close> applies to the quaternion it stores. The three are
  parameters of the functions that convert.
\<close>

record ('d, 'f) scalars =
  narrow :: "'d \<Rightarrow> 'f"
  widen :: "'f \<Rightarrow> 'd"
  normalise :: "'f Ogre_Quaternion \<Rightarrow> 'f Ogre_Quaternion"

text \<open>The componentwise conversions between the two representations.\<close>

definition narrow_vector :: "('d, 'f) scalars \<Rightarrow> 'd Vector3 \<Rightarrow> 'f Ogre_Vector3" where
  "narrow_vector sc p =
     (case p of Vector3 px py pz \<Rightarrow>
        Ogre_Vector3 (narrow sc px) (narrow sc py) (narrow sc pz))"

definition widen_vector :: "('d, 'f) scalars \<Rightarrow> 'f Ogre_Vector3 \<Rightarrow> 'd Vector3" where
  "widen_vector sc vpos =
     (case vpos of Ogre_Vector3 vx vy vz \<Rightarrow>
        Vector3 (widen sc vx) (widen sc vy) (widen sc vz))"

definition narrow_quatern :: "('d, 'f) scalars \<Rightarrow> 'd Quatern \<Rightarrow> 'f Ogre_Quaternion" where
  "narrow_quatern sc r =
     (case r of Quatern ru rx ry rz \<Rightarrow>
        Ogre_Quaternion (narrow sc ru) (narrow sc rx) (narrow sc ry) (narrow sc rz))"

definition widen_quaternion :: "('d, 'f) scalars \<Rightarrow> 'f Ogre_Quaternion \<Rightarrow> 'd Quatern" where
  "widen_quaternion sc vquatern =
     (case vquatern of Ogre_Quaternion qw qx qy qz \<Rightarrow>
        Quatern (widen sc qw) (widen sc qx) (widen sc qy) (widen sc qz))"

text \<open>
  A C++ \<^verbatim>\<open>float\<close>, as far as comparison is concerned: a number, an infinity, or a NaN.
  \<open>float_less\<close> is the operator \<^verbatim>\<open><\<close>: false whenever an operand is a NaN.
  \<^verbatim>\<open>std::max(a, b)\<close> is \<^verbatim>\<open>(a < b) ? b : a\<close> and \<^verbatim>\<open>std::min(a, b)\<close> is \<^verbatim>\<open>(b < a) ? b : a\<close>.
\<close>

datatype float = NaN | MInf | Fin real | PInf

fun float_less :: "float \<Rightarrow> float \<Rightarrow> bool" where
  "float_less NaN b = False"
| "float_less a NaN = False"
| "float_less MInf MInf = False"
| "float_less MInf b = True"
| "float_less (Fin a) (Fin b) = (a < b)"
| "float_less (Fin a) PInf = True"
| "float_less (Fin a) MInf = False"
| "float_less PInf b = False"

text \<open>The operator \<^verbatim>\<open><=\<close>, false as well whenever an operand is a NaN.\<close>

definition float_le :: "float \<Rightarrow> float \<Rightarrow> bool" where
  "float_le a b = (a \<noteq> NaN \<and> b \<noteq> NaN \<and> \<not> float_less b a)"

definition std_max :: "float \<Rightarrow> float \<Rightarrow> float" where
  "std_max a b = (if float_less a b then b else a)"

definition std_min :: "float \<Rightarrow> float \<Rightarrow> float" where
  "std_min a b = (if float_less b a then b else a)"

subsection \<open>The objects of the rendering engine\<close>

text \<open>
  A pass of a technique of a material, with the two attributes \<^verbatim>\<open>SetTransparency\<close> writes:
  the depth-write flag and the alpha of the diffuse colour. \<open>OneMinus t\<close> is the \<^verbatim>\<open>float\<close>
  result of \<^verbatim>\<open>1.0f - t\<close>, kept as written since the rounding of the subtraction is not
  modelled.
\<close>

datatype alpha = Alpha float | OneMinus float

record pass =
  depthWriteEnabled :: bool
  diffuse_a :: alpha

type_synonym technique = "pass list"

type_synonym material = "technique list"

text \<open>
  An \<^verbatim>\<open>Ogre::MovableObject\<close> attached to a scene node. \<open>is_entity\<close> says whether
  \<^verbatim>\<open>dynamic_cast<Ogre::Entity*>\<close> succeeds on it; \<open>subEntities\<close> holds the material of each
  sub-entity of an entity. The setters of Ogre are modelled by the attribute they set:
  \<^verbatim>\<open>setCastShadows\<close> sets \<open>castShadows\<close>; \<^verbatim>\<open>Entity::setMaterialName\<close> and
  \<^verbatim>\<open>SimpleRenderable::setMaterial\<close> set \<open>materialName\<close>, the name assigned to the object.
\<close>

record movable =
  is_entity :: bool
  castShadows :: bool
  materialName :: string
  subEntities :: "material list"

record 'a scene_node =
  node_name :: string
  node_parent :: "nat option"
  position :: "'a Ogre_Vector3"
  orientation :: "'a Ogre_Quaternion"
  attached :: "movable list"

text \<open>
  The state of Ogre: the scene nodes of the scene manager, and the names of the
  materials known to \<^verbatim>\<open>Ogre::MaterialManager\<close>.
\<close>

record 'a ogre =
  nodes :: "'a scene_node list"
  materials :: "string list"

record static_geometry =
  sg_castShadows :: bool

text \<open>
  A \<^verbatim>\<open>Scene\<close>, as far as the constructor uses it: the pointer that
  \<^verbatim>\<open>GetManager()->getRootSceneNode()\<close> yields.
\<close>

record scene =
  rootSceneNode :: nat

record visual =
  common_name :: string
  sceneNode :: "nat option"
  transparency :: float
  isStatic :: bool
  useRTShader :: bool
  visible :: bool
  ribbonTrail :: "movable option"
  boundingBoxNode :: "nat option"
  staticGeom :: "static_geometry option"
  origMaterialName :: string
  myMaterialName :: string

text \<open>Dereferencing a pointer to a scene node.\<close>

definition getNode :: "'a ogre \<Rightarrow> nat option \<Rightarrow> 'a scene_node option" where
  "getNode og p =
     (case p of
        None \<Rightarrow> None
      | Some n \<Rightarrow> if n < length (nodes og) then Some (nodes og ! n) else None)"

text \<open>Writing through a pointer that \<open>getNode\<close> has dereferenced.\<close>

definition putNode :: "'a ogre \<Rightarrow> nat option \<Rightarrow> 'a scene_node \<Rightarrow> 'a ogre" where
  "putNode og p nd =
     (case p of
        None \<Rightarrow> og
      | Some n \<Rightarrow> og\<lparr>nodes := (nodes og)[n := nd]\<rparr>)"

text \<open>
  The objects attached to a node, by count and by index. Ogre reports the count as an
  \<^verbatim>\<open>unsigned short\<close> and the loops compare it with an \<^verbatim>\<open>int\<close> index, which cannot overflow
  below such a count; both are natural numbers here.
\<close>

definition numAttachedObjects :: "'a scene_node \<Rightarrow> nat" where
  "numAttachedObjects nd = length (attached nd)"

definition getAttachedObject :: "'a scene_node \<Rightarrow> nat \<Rightarrow> movable option" where
  "getAttachedObject nd i = (if i < length (attached nd) then Some (attached nd ! i) else None)"

text \<open>
  \<^verbatim>\<open>SceneManager::hasSceneNode(name)\<close>: whether a scene node of the scene manager has that
  name already. The names of the scene nodes of a scene manager are unique.
\<close>

definition hasSceneNode :: "'a ogre \<Rightarrow> string \<Rightarrow> bool" where
  "hasSceneNode og nm = (nm \<in> set (map node_name (nodes og)))"

text \<open>
  \<^verbatim>\<open>createChildSceneNode(name)\<close> on the node \<open>p\<close> points to. Ogre throws when the name is
  in use (the code knows: \<^verbatim>\<open>AttachBoundingBox\<close> looks for a free name with
  \<^verbatim>\<open>hasSceneNode\<close> before it creates its node). Otherwise the result is a new node of that
  name, with \<open>p\<close> as its parent, at the origin, with the identity orientation and
  nothing attached. Its address is the next free index.
\<close>

definition new_node :: "string \<Rightarrow> nat option \<Rightarrow> 'a::{zero,one} scene_node" where
  "new_node nm p =
     \<lparr>node_name = nm, node_parent = p, position = Ogre_Vector3 0 0 0,
      orientation = Ogre_Quaternion 1 0 0 0, attached = []\<rparr>"

definition createChildSceneNode ::
  "nat option \<Rightarrow> string \<Rightarrow> 'a::{zero,one} ogre \<Rightarrow> (nat \<times> 'a ogre) option" where
  "createChildSceneNode p nm og =
     (case getNode og p of
        None \<Rightarrow> None
      | Some parent \<Rightarrow>
          if hasSceneNode og nm then None
          else Some (length (nodes og), og\<lparr>nodes := nodes og @ [new_node nm p]\<rparr>))"

text \<open>
  The loop \<^verbatim>\<open>for (i = 0; i < numAttachedObjects(); i++)\<close> whose body fetches the object
  at index \<open>i\<close> and changes it by \<open>f\<close>; it serves the loops over sub-entities, techniques
  and passes as well.
\<close>

function for_index :: "('b \<Rightarrow> 'b) \<Rightarrow> nat \<Rightarrow> 'b list \<Rightarrow> 'b list" where
  "for_index f i xs =
     (if i < length xs then for_index f (Suc i) (xs[i := f (xs ! i)]) else xs)"
  by pat_completeness auto
termination
  by (relation "measure (\<lambda>(f, i, xs). length xs - i)") auto

declare for_index.simps [simp del]

subsection \<open>Construction\<close>

text \<open>
  \<^verbatim>\<open>Visual::Init\<close>, the helper of the constructors. The parameter objects it creates and
  the registration with \<^verbatim>\<open>RTShaderSystem\<close> touch neither the fields below nor the scene
  nodes, and are left out.
\<close>

definition Visual_Init :: "visual \<Rightarrow> visual" where
  "Visual_Init v =
     v\<lparr>transparency := Fin 0, isStatic := False, useRTShader := True, visible := True,
       ribbonTrail := None, boundingBoxNode := None, staticGeom := None\<rparr>"

text \<open>
  The object a constructor starts from, after \<^verbatim>\<open>SetName(name)\<close> and
  \<^verbatim>\<open>this->sceneNode = NULL\<close>: the strings are empty, and the fields \<^verbatim>\<open>Visual::Init\<close> assigns
  later have the values it will give them.
\<close>

definition blank_visual :: "string \<Rightarrow> visual" where
  "blank_visual nm =
     \<lparr>common_name = nm, sceneNode = None, transparency = Fin 0, isStatic = False,
      useRTShader = True, visible = True, ribbonTrail = None, boundingBoxNode = None,
      staticGeom = None, origMaterialName = [], myMaterialName = []\<rparr>"

definition GetSceneNode :: "visual \<Rightarrow> nat option" where
  "GetSceneNode v = sceneNode v"

text \<open>
  The common part of the three constructors: create the child node named after the
  visual under \<open>pnode\<close>, store it, and run \<^verbatim>\<open>Init\<close>.
\<close>

definition construct ::
  "string \<Rightarrow> nat option \<Rightarrow> 'a::{zero,one} ogre \<Rightarrow> (visual \<times> 'a ogre) option" where
  "construct nm pnode og =
     (case createChildSceneNode pnode (common_name (blank_visual nm)) og of
        None \<Rightarrow> None
      | Some (n, og') \<Rightarrow> Some (Visual_Init ((blank_visual nm)\<lparr>sceneNode := Some n\<rparr>), og'))"

text \<open>
  \<^verbatim>\<open>Visual::Visual(name, Visual *parent)\<close>. With a null \<open>parent\<close> the code reports
  "Create a visual, invalid parent!!!" and goes on to call \<^verbatim>\<open>createChildSceneNode\<close> on
  the null \<^verbatim>\<open>pnode\<close>.
\<close>

definition Visual_Visual ::
  "string \<Rightarrow> visual option \<Rightarrow> 'a::{zero,one} ogre \<Rightarrow> (visual \<times> 'a ogre) option" where
  "Visual_Visual nm parent og =
     (let pnode = (case parent of Some pv \<Rightarrow> GetSceneNode pv | None \<Rightarrow> None)
      in construct nm pnode og)"

text \<open>\<^verbatim>\<open>Visual::Visual(name, Ogre::SceneNode *parent)\<close>.\<close>

definition Visual_SceneNode ::
  "string \<Rightarrow> nat option \<Rightarrow> 'a::{zero,one} ogre \<Rightarrow> (visual \<times> 'a ogre) option" where
  "Visual_SceneNode nm parent og = construct nm parent og"

text \<open>\<^verbatim>\<open>Visual::Visual(name, Scene *scene)\<close>, under the root scene node of the scene.\<close>

definition Visual_Scene ::
  "string \<Rightarrow> scene option \<Rightarrow> 'a::{zero,one} ogre \<Rightarrow> (visual \<times> 'a ogre) option" where
  "Visual_Scene nm sc og =
     (case sc of
        None \<Rightarrow> None
      | Some s \<Rightarrow> construct nm (Some (rootSceneNode s)) og)"

text \<open>
  What it means for a constructor, run on the state \<open>og\<close> with the result \<open>r\<close>, to have
  created the child node \<open>nm\<close> under \<open>p\<close>: it returns a visual of that name whose scene
  node is the one new node of the state, a fresh node of that name under \<open>p\<close>, and the
  nodes and materials that were there are unchanged.
\<close>

definition created_child ::
  "string \<Rightarrow> nat option \<Rightarrow> 'a::{zero,one} ogre \<Rightarrow> (visual \<times> 'a ogre) option \<Rightarrow> bool" where
  "created_child nm p og r =
     (case r of
        None \<Rightarrow> False
      | Some (v, og') \<Rightarrow>
          common_name v = nm \<and>
          GetSceneNode v = Some (length (nodes og)) \<and>
          nodes og' = nodes og @ [new_node nm p] \<and>
          materials og' = materials og)"

subsection \<open>Attached objects\<close>

definition GetNumAttached :: "bool \<Rightarrow> visual \<Rightarrow> 'a ogre \<Rightarrow> nat option" where
  "GetNumAttached en v og =
     (if \<not> en then Some 0
      else case getNode og (sceneNode v) of
             None \<Rightarrow> None
           | Some nd \<Rightarrow> Some (numAttachedObjects nd))"

text \<open>
  \<^verbatim>\<open>GetAttached\<close> returns a pointer to an object: \<open>Some None\<close> is the result \<^verbatim>\<open>NULL\<close>,
  \<open>Some (Some ob)\<close> a pointer to \<open>ob\<close>.
\<close>

definition GetAttached :: "bool \<Rightarrow> nat \<Rightarrow> visual \<Rightarrow> 'a ogre \<Rightarrow> movable option option" where
  "GetAttached en num v og =
     (if \<not> en then Some None
      else case getNode og (sceneNode v) of
             None \<Rightarrow> None
           | Some nd \<Rightarrow>
               (case getAttachedObject nd num of
                  None \<Rightarrow> None
                | Some ob \<Rightarrow> Some (Some ob)))"

definition IsStatic :: "visual \<Rightarrow> bool" where
  "IsStatic v = isStatic v"

definition setCastShadows :: "bool \<Rightarrow> movable \<Rightarrow> movable" where
  "setCastShadows s ob = ob\<lparr>castShadows := s\<rparr>"

definition SetCastShadows ::
  "bool \<Rightarrow> bool \<Rightarrow> visual \<Rightarrow> 'a ogre \<Rightarrow> (visual \<times> 'a ogre) option" where
  "SetCastShadows en shadows v og =
     (if \<not> en then Some (v, og)
      else case getNode og (sceneNode v) of
             None \<Rightarrow> None
           | Some nd \<Rightarrow>
               (let og' = putNode og (sceneNode v)
                            (nd\<lparr>attached := for_index (setCastShadows shadows) 0 (attached nd)\<rparr>);
                    v' = (if IsStatic v \<and> staticGeom v \<noteq> None
                          then v\<lparr>staticGeom :=
                                 map_option (\<lambda>g. g\<lparr>sg_castShadows := shadows\<rparr>) (staticGeom v)\<rparr>
                          else v)
                in Some (v', og')))"

subsection \<open>Material\<close>

text \<open>
  \<^verbatim>\<open>MaterialManager::getByName\<close> yields a null pointer for a name that is not known, and
  \<^verbatim>\<open>resourceExists\<close> tests the same; \<^verbatim>\<open>clone\<close> registers the new name.
\<close>

definition resourceExists :: "'a ogre \<Rightarrow> string \<Rightarrow> bool" where
  "resourceExists og nm = (nm \<in> set (materials og))"

definition clone :: "'a ogre \<Rightarrow> string \<Rightarrow> 'a ogre" where
  "clone og nm = og\<lparr>materials := materials og @ [nm]\<rparr>"

text \<open>The body of the loop of \<^verbatim>\<open>SetMaterial\<close>.\<close>

definition assign_material :: "string \<Rightarrow> movable \<Rightarrow> movable" where
  "assign_material nm ob =
     (if is_entity ob then ob\<lparr>materialName := nm\<rparr> else ob\<lparr>materialName := nm\<rparr>)"

definition SetMaterial ::
  "bool \<Rightarrow> string \<Rightarrow> visual \<Rightarrow> 'a ogre \<Rightarrow> (visual \<times> 'a ogre) option" where
  "SetMaterial en materialName' v og =
     (if \<not> en then Some (v, og)
      else if materialName' = [] then Some (v, og)
      else
        (let v1 = v\<lparr>origMaterialName := materialName'\<rparr>
         in case getNode og (sceneNode v1) of
              None \<Rightarrow> None
            | Some nd \<Rightarrow>
                if \<not> resourceExists og materialName' then Some (v1, og)
                else
                  (let v2 = v1\<lparr>myMaterialName := node_name nd @ ''_MATERIAL_'' @ materialName'\<rparr>;
                       og1 = (if resourceExists og (myMaterialName v2) then og
                              else clone og (myMaterialName v2))
                   in case getNode og1 (sceneNode v2) of
                        None \<Rightarrow> None
                      | Some nd1 \<Rightarrow>
                          Some (v2, putNode og1 (sceneNode v2)
                            (nd1\<lparr>attached :=
                               for_index (assign_material (myMaterialName v2)) 0
                                 (attached nd1)\<rparr>)))))"

definition GetMaterialName :: "visual \<Rightarrow> string" where
  "GetMaterialName v = myMaterialName v"

subsection \<open>Transparency\<close>

text \<open>
  The innermost body of \<^verbatim>\<open>SetTransparency\<close>, on one pass, and the loops around it: over
  the passes of a technique, the techniques of a material, the sub-entities of an
  entity. An attached object that is not an entity is skipped (\<^verbatim>\<open>continue\<close>).
\<close>

definition set_pass_transparency :: "float \<Rightarrow> pass \<Rightarrow> pass" where
  "set_pass_transparency t p =
     (let p1 = (if float_less (Fin 0) t then p\<lparr>depthWriteEnabled := False\<rparr>
                else p\<lparr>depthWriteEnabled := True\<rparr>)
      in p1\<lparr>diffuse_a := OneMinus t\<rparr>)"

definition set_material_transparency :: "float \<Rightarrow> material \<Rightarrow> material" where
  "set_material_transparency t mat =
     for_index (\<lambda>technique. for_index (set_pass_transparency t) 0 technique) 0 mat"

definition set_object_transparency :: "float \<Rightarrow> movable \<Rightarrow> movable" where
  "set_object_transparency t ob =
     (if \<not> is_entity ob then ob
      else ob\<lparr>subEntities := for_index (set_material_transparency t) 0 (subEntities ob)\<rparr>)"

definition SetTransparency ::
  "bool \<Rightarrow> float \<Rightarrow> visual \<Rightarrow> 'a ogre \<Rightarrow> (visual \<times> 'a ogre) option" where
  "SetTransparency en trans' v og =
     (if \<not> en then Some (v, og)
      else
        (let v' = v\<lparr>transparency := std_min (std_max trans' (Fin 0)) (Fin 1)\<rparr>
         in case getNode og (sceneNode v') of
              None \<Rightarrow> None
            | Some nd \<Rightarrow>
                Some (v', putNode og (sceneNode v')
                  (nd\<lparr>attached :=
                     for_index (set_object_transparency (transparency v')) 0 (attached nd)\<rparr>))))"

definition GetTransparency :: "visual \<Rightarrow> float" where
  "GetTransparency v = transparency v"

subsection \<open>Pose\<close>

text \<open>
  \<^verbatim>\<open>SetPosition\<close> does not read the render-engine switch. It passes the three \<^verbatim>\<open>double\<close>
  components to \<^verbatim>\<open>setPosition(Real, Real, Real)\<close>, which stores them.
\<close>

definition SetPosition ::
  "('d, 'f) scalars \<Rightarrow> 'd Vector3 \<Rightarrow> visual \<Rightarrow> 'f ogre \<Rightarrow> 'f ogre option" where
  "SetPosition sc p v og =
     (case getNode og (sceneNode v) of
        None \<Rightarrow> None
      | Some nd \<Rightarrow>
          Some (putNode og (sceneNode v) (nd\<lparr>position := narrow_vector sc p\<rparr>)))"

text \<open>
  \<^verbatim>\<open>SetRotation\<close> passes the four components to \<^verbatim>\<open>setOrientation(Real, Real, Real, Real)\<close>,
  which stores the quaternion and normalises it.
\<close>

definition SetRotation ::
  "('d, 'f) scalars \<Rightarrow> bool \<Rightarrow> 'd Quatern \<Rightarrow> visual \<Rightarrow> 'f ogre \<Rightarrow> 'f ogre option" where
  "SetRotation sc en r v og =
     (if \<not> en then Some og
      else case getNode og (sceneNode v) of
             None \<Rightarrow> None
           | Some nd \<Rightarrow>
               Some (putNode og (sceneNode v)
                 (nd\<lparr>orientation := normalise sc (narrow_quatern sc r)\<rparr>)))"

definition SetPose ::
  "('d, 'f) scalars \<Rightarrow> bool \<Rightarrow> 'd Pose3d \<Rightarrow> visual \<Rightarrow> 'f ogre \<Rightarrow> 'f ogre option" where
  "SetPose sc en pose v og =
     (if \<not> en then Some og
      else case SetPosition sc (pos pose) v og of
             None \<Rightarrow> None
           | Some og1 \<Rightarrow> SetRotation sc en (rot pose) v og1)"

definition GetPosition ::
  "('d::zero, 'f) scalars \<Rightarrow> bool \<Rightarrow> visual \<Rightarrow> 'f ogre \<Rightarrow> 'd Vector3 option" where
  "GetPosition sc en v og =
     (if \<not> en then Some Vector3_default
      else case getNode og (sceneNode v) of
             None \<Rightarrow> None
           | Some nd \<Rightarrow> Some (widen_vector sc (position nd)))"

definition GetRotation ::
  "('d::{zero,one}, 'f) scalars \<Rightarrow> bool \<Rightarrow> visual \<Rightarrow> 'f ogre \<Rightarrow> 'd Quatern option" where
  "GetRotation sc en v og =
     (if \<not> en then Some Quatern_default
      else case getNode og (sceneNode v) of
             None \<Rightarrow> None
           | Some nd \<Rightarrow> Some (widen_quaternion sc (orientation nd)))"

definition GetPose ::
  "('d::{zero,one}, 'f) scalars \<Rightarrow> bool \<Rightarrow> visual \<Rightarrow> 'f ogre \<Rightarrow> 'd Pose3d option" where
  "GetPose sc en v og =
     (if \<not> en then Some Pose3d_default
      else case GetPosition sc en v og of
             None \<Rightarrow> None
           | Some p \<Rightarrow>
               (case GetRotation sc en v og of
                  None \<Rightarrow> None
                | Some r \<Rightarrow> Some (Pose3d p r)))"

section \<open>Example objects\<close>

text \<open>Concrete models on which the properties below are evaluated.\<close>

definition example_arm :: model where
  "example_arm =
     Model ''arm'' [Link ''upper_arm''] []
       [\<lparr>jname = ''elbow'', init_throws = False\<rparr>]"

definition example_robot :: model where
  "example_robot =
     Model ''robot'' [Link ''chassis'', SubModel example_arm, OtherBase ''sensor'']
       [''gripper'']
       [\<lparr>jname = ''shoulder'', init_throws = False\<rparr>,
        \<lparr>jname = ''wrist'', init_throws = False\<rparr>]"

definition example_nested :: model where
  "example_nested =
     Model ''robot'' [SubModel example_arm, Link ''chassis''] []
       [\<lparr>jname = ''shoulder'', init_throws = False\<rparr>]"

definition example_broken :: model where
  "example_broken =
     Model ''robot'' [Link ''chassis'', SubModel example_arm] []
       [\<lparr>jname = ''shoulder'', init_throws = False\<rparr>,
        \<lparr>jname = ''wrist'', init_throws = True\<rparr>,
        \<lparr>jname = ''finger'', init_throws = False\<rparr>]"

text \<open>
  A scene with its root node and a node \<open>box\<close> that carries an entity and a simple
  renderable, and a static visual on that node.
\<close>

definition example_ogre :: "real ogre" where
  "example_ogre =
     \<lparr>nodes =
        [\<lparr>node_name = ''root'', node_parent = None, position = Ogre_Vector3 0 0 0,
          orientation = Ogre_Quaternion 1 0 0 0, attached = []\<rparr>,
         \<lparr>node_name = ''box'', node_parent = Some 0, position = Ogre_Vector3 0 0 0,
          orientation = Ogre_Quaternion 1 0 0 0,
          attached =
            [\<lparr>is_entity = True, castShadows = False, materialName = ''BaseWhite'',
              subEntities = [[[\<lparr>depthWriteEnabled = True, diffuse_a = Alpha (Fin 1)\<rparr>]]]\<rparr>,
             \<lparr>is_entity = False, castShadows = False, materialName = ''BaseWhite'',
              subEntities = []\<rparr>]\<rparr>],
      materials = [''Gazebo/Red'']\<rparr>"

definition example_visual :: visual where
  "example_visual =
     (blank_visual ''box'')
       \<lparr>sceneNode := Some 1, isStatic := True,
        staticGeom := Some \<lparr>sg_castShadows = False\<rparr>\<rparr>"

text \<open>
  Scalars for the examples: real numbers stand for the \<^verbatim>\<open>double\<close>s and the \<^verbatim>\<open>float\<close>s of the
  same value, for values that both types represent exactly, such as 0, 1, 2 and 3; on
  these the two conversions change nothing. \<open>exact_normalise\<close> is Ogre's
  \<^verbatim>\<open>Quaternion::normalise\<close>, which multiplies the four components by the inverse of the
  square root of the sum of their squares, on a quaternion that is not zero and on which
  none of these operations rounds.
\<close>

definition exact_normalise :: "real Ogre_Quaternion \<Rightarrow> real Ogre_Quaternion" where
  "exact_normalise q =
     (case q of Ogre_Quaternion qw qx qy qz \<Rightarrow>
        (let len = qw * qw + qx * qx + qy * qy + qz * qz;
             factor = 1 / sqrt len
         in Ogre_Quaternion (qw * factor) (qx * factor) (qy * factor) (qz * factor)))"

definition exact_scalars :: "(real, real) scalars" where
  "exact_scalars = \<lparr>narrow = (\<lambda>d. d), widen = (\<lambda>f. f), normalise = exact_normalise\<rparr>"

section \<open>Properties of SimbodyModel\<close>

subsection \<open>The loops in closed form\<close>

lemma init_grippers_trace: "init_grippers gs tr = tr @ map GripperInit gs"
  by (induction gs arbitrary: tr) simp_all

lemma publish_joints_trace:
  "publish_joints n js tr = tr @ map (\<lambda>j. Publish n (FillMsg j)) js"
  by (induction js arbitrary: tr) simp_all

lemma init_joints_trace:
  "init_joints js tr = (list_all (\<lambda>j. \<not> init_throws j) js, tr @ joint_calls js)"
  by (induction js arbitrary: tr) simp_all

lemma joint_calls_ok:
  "\<forall>j\<in>set js. \<not> init_throws j \<Longrightarrow> joint_calls js = map (\<lambda>j. JointInit (jname j)) js"
  by (induction js) simp_all

lemma joint_calls_throw:
  "\<forall>j\<in>set ok. \<not> init_throws j \<Longrightarrow> init_throws bad \<Longrightarrow>
   joint_calls (ok @ bad # rest) =
     map (\<lambda>j. JointInit (jname j)) (ok @ [bad]) @ [GzErr ''Init joint failed'']"
  by (induction ok) simp_all

lemma Init_append_all:
  "\<forall>t. Init eng m t = t @ Init eng m []"
  "\<forall>t. init_children eng cs t = t @ init_children eng cs []"
  "\<forall>t. init_child eng c t = t @ init_child eng c []"
proof (induction eng m "tr::event list" and eng cs "tr::event list" and eng c "tr::event list"
    rule: Init_init_children_init_child.induct)
  case (1 eng n cs gs js tr)
  show ?case
  proof
    fix t
    have ih: "\<And>u. init_children eng cs u = u @ init_children eng cs []"
      using 1 by blast
    have c: "Init eng (Model n cs gs js) u =
        u @ [SetInitialRelativePose n, SetRelativePose n] @ init_children eng cs [] @
        map GripperInit gs @ (if eng = SimbodyPhysics then [InitModel n] else []) @
        joint_calls js @
        (if list_all (\<lambda>j. \<not> init_throws j) js
         then map (\<lambda>j. Publish n (FillMsg j)) js else [])" for u
      using ih [of "u @ [SetInitialRelativePose n, SetRelativePose n]"]
      by (cases eng)
        (simp_all add: Let_def init_grippers_trace init_joints_trace publish_joints_trace
          split: bool.splits)
    show "Init eng (Model n cs gs js) t = t @ Init eng (Model n cs gs js) []"
      using c [of t] c [of "[]"] by simp
  qed
next
  case (2 eng tr)
  show ?case by simp
next
  case (3 eng c cs tr)
  show ?case
  proof
    fix t
    have ih1: "\<And>u. init_child eng c u = u @ init_child eng c []"
      using 3 by blast
    have ih2: "\<And>u. init_children eng cs u = u @ init_children eng cs []"
      using 3 by blast
    have "init_children eng (c # cs) t = init_children eng cs (init_child eng c t)" by simp
    also have "\<dots> = init_child eng c t @ init_children eng cs []" by (rule ih2)
    also have "\<dots> = t @ init_child eng c [] @ init_children eng cs []"
      using ih1 [of t] by simp
    also have "init_child eng c [] @ init_children eng cs [] = init_children eng cs (init_child eng c [])"
      by (rule ih2 [symmetric])
    finally show "init_children eng (c # cs) t = t @ init_children eng (c # cs) []" by simp
  qed
next
  case (4 eng l tr)
  show ?case by simp
next
  case (5 eng m tr)
  show ?case unfolding init_child.simps by (rule 5)
next
  case (6 eng b tr)
  show ?case by simp
qed

lemma init_children_trace:
  "init_children eng cs tr = tr @ concat (map (\<lambda>c. init_child eng c []) cs)"
proof (induction cs arbitrary: tr)
  case Nil
  show ?case by simp
next
  case (Cons c cs)
  have "init_child eng c tr = tr @ init_child eng c []"
    using Init_append_all(3) by blast
  then show ?case by (simp add: Cons.IH)
qed


lemma Init_trace:
  "Init eng m tr =
     tr @ before_joints eng m @ joint_calls (joints m) @
     (if list_all (\<lambda>j. \<not> init_throws j) (joints m)
      then map (\<lambda>j. Publish (mname m) (FillMsg j)) (joints m) else [])"
proof (cases m)
  case (Model n cs gs js)
  show ?thesis
    unfolding Model
    by (cases eng)
      (simp_all add: before_joints_def Let_def init_children_trace init_grippers_trace
        init_joints_trace publish_joints_trace split: bool.splits)
qed

lemma joint_calls_prefix:
  "\<exists>k. joint_calls js =
     map (\<lambda>j. JointInit (jname j)) (take k js) @
     (if list_all (\<lambda>j. \<not> init_throws j) js then [] else [GzErr ''Init joint failed''])"
proof (induction js)
  case Nil
  show ?case by simp
next
  case (Cons j js)
  show ?case
  proof (cases "init_throws j")
    case True
    have "joint_calls (j # js) =
        map (\<lambda>j. JointInit (jname j)) (take (Suc 0) (j # js)) @
        (if list_all (\<lambda>j. \<not> init_throws j) (j # js) then [] else [GzErr ''Init joint failed''])"
      using True by simp
    then show ?thesis by blast
  next
    case False
    from Cons.IH obtain k where
      k: "joint_calls js = map (\<lambda>j. JointInit (jname j)) (take k js) @
            (if list_all (\<lambda>j. \<not> init_throws j) js then [] else [GzErr ''Init joint failed''])"
      by blast
    have "joint_calls (j # js) =
        map (\<lambda>j. JointInit (jname j)) (take (Suc k) (j # js)) @
        (if list_all (\<lambda>j. \<not> init_throws j) (j # js) then [] else [GzErr ''Init joint failed''])"
      using False k by simp
    then show ?thesis by blast
  qed
qed

text \<open>
  Claim C1, amended. Whatever the engine, the model and the trace so far, the calls made
  by \<^verbatim>\<open>SimbodyModel::Init\<close> come in this order: the two pose setters; the initialisation
  of the children, one after the other in the order of the list, which is \<^verbatim>\<open>Link::Init\<close>
  for a link, the whole of \<^verbatim>\<open>SimbodyModel::Init\<close> for a nested model (its own joints
  included) and nothing for another object, so that every child link and every child
  model is initialised there; the grippers; \<^verbatim>\<open>InitModel\<close> on the model exactly when the
  engine is a \<^verbatim>\<open>SimbodyPhysics\<close>; and only then the calls of \<^verbatim>\<open>Init\<close> on the joints of the
  model's own joint list, which are a prefix of that list. Nothing after them is a call
  of \<^verbatim>\<open>Joint::Init\<close>. So no joint of the model's own list is initialised before all child
  links and models of the model and \<^verbatim>\<open>InitModel\<close>.
\<close>

theorem Init_own_joints_after_bodies:
  "(\<exists>body k rest.
      Init eng m tr =
        tr @ [SetInitialRelativePose (mname m), SetRelativePose (mname m)] @
        body @
        map GripperInit (grippers m) @
        (if eng = SimbodyPhysics then [InitModel (mname m)] else []) @
        map (\<lambda>j. JointInit (jname j)) (take k (joints m)) @ rest \<and>
      body = concat (map (\<lambda>c. init_child eng c []) (children m)) \<and>
      (\<forall>l. Link l \<in> set (children m) \<longrightarrow> LinkInit l \<in> set body) \<and>
      (\<forall>c. SubModel c \<in> set (children m) \<longrightarrow> set (Init eng c []) \<subseteq> set body) \<and>
      (\<forall>e \<in> set rest. \<forall>n. e \<noteq> JointInit n)) \<and>
   init_child eng (Link l') [] = [LinkInit l'] \<and>
   init_child eng (SubModel c') [] = Init eng c' [] \<and>
   init_child eng (OtherBase b') [] = []"
proof -
  obtain k where
    k: "joint_calls (joints m) =
          map (\<lambda>j. JointInit (jname j)) (take k (joints m)) @
          (if list_all (\<lambda>j. \<not> init_throws j) (joints m) then []
           else [GzErr ''Init joint failed''])"
    using joint_calls_prefix by blast
  let ?body = "concat (map (\<lambda>c. init_child eng c []) (children m))"
  let ?rest = "(if list_all (\<lambda>j. \<not> init_throws j) (joints m) then []
                else [GzErr ''Init joint failed'']) @
               (if list_all (\<lambda>j. \<not> init_throws j) (joints m)
                then map (\<lambda>j. Publish (mname m) (FillMsg j)) (joints m) else [])"
  have trace: "Init eng m tr =
       tr @ [SetInitialRelativePose (mname m), SetRelativePose (mname m)] @
       ?body @
       map GripperInit (grippers m) @
       (if eng = SimbodyPhysics then [InitModel (mname m)] else []) @
       map (\<lambda>j. JointInit (jname j)) (take k (joints m)) @ ?rest"
    by (simp add: Init_trace [of eng m tr] before_joints_def k)
  have links: "\<forall>l. Link l \<in> set (children m) \<longrightarrow> LinkInit l \<in> set ?body"
  proof (intro allI impI)
    fix l
    assume "Link l \<in> set (children m)"
    then have "set (init_child eng (Link l) []) \<subseteq> set ?body"
      by (auto simp del: init_child.simps)
    then show "LinkInit l \<in> set ?body" by simp
  qed
  have models: "\<forall>c. SubModel c \<in> set (children m) \<longrightarrow> set (Init eng c []) \<subseteq> set ?body"
  proof (intro allI impI)
    fix c
    assume "SubModel c \<in> set (children m)"
    then have "set (init_child eng (SubModel c) []) \<subseteq> set ?body"
      by (auto simp del: init_child.simps)
    then show "set (Init eng c []) \<subseteq> set ?body" by simp
  qed
  have rest: "\<forall>e \<in> set ?rest. \<forall>n. e \<noteq> JointInit n"
    by auto
  have "\<exists>body k rest.
      Init eng m tr =
        tr @ [SetInitialRelativePose (mname m), SetRelativePose (mname m)] @
        body @
        map GripperInit (grippers m) @
        (if eng = SimbodyPhysics then [InitModel (mname m)] else []) @
        map (\<lambda>j. JointInit (jname j)) (take k (joints m)) @ rest \<and>
      body = concat (map (\<lambda>c. init_child eng c []) (children m)) \<and>
      (\<forall>l. Link l \<in> set (children m) \<longrightarrow> LinkInit l \<in> set body) \<and>
      (\<forall>c. SubModel c \<in> set (children m) \<longrightarrow> set (Init eng c []) \<subseteq> set body) \<and>
      (\<forall>e \<in> set rest. \<forall>n. e \<noteq> JointInit n)"
    using trace links models rest by blast
  then show ?thesis by simp
qed

text \<open>The order on a robot with a link, a nested arm, a gripper and two joints.\<close>

theorem Init_own_joints_after_bodies_witness:
  "Init SimbodyPhysics example_robot [] =
     [SetInitialRelativePose ''robot'', SetRelativePose ''robot'',
      LinkInit ''chassis'',
      SetInitialRelativePose ''arm'', SetRelativePose ''arm'', LinkInit ''upper_arm'',
      InitModel ''arm'', JointInit ''elbow'', Publish ''arm'' (JointMsg ''elbow''),
      GripperInit ''gripper'',
      InitModel ''robot'',
      JointInit ''shoulder'', JointInit ''wrist'',
      Publish ''robot'' (JointMsg ''shoulder''), Publish ''robot'' (JointMsg ''wrist'')]"
  using Init_own_joints_after_bodies [of SimbodyPhysics example_robot "[]"]
  by (simp add: example_robot_def example_arm_def FillMsg_def)

text \<open>
  A nested model comes before a link in the list of children: the joint \<open>elbow\<close> of the
  nested arm is initialised inside the arm's own \<^verbatim>\<open>Init\<close>, before the link \<open>chassis\<close> of
  the robot is initialised and before \<^verbatim>\<open>InitModel\<close> is called on the robot. So it is not
  the case that no joint's \<^verbatim>\<open>Init\<close> runs before every child link and model has been
  initialised.
\<close>

theorem Init_nested_joint_before_link_counterexample:
  "Init SimbodyPhysics example_nested [] =
     [SetInitialRelativePose ''robot'', SetRelativePose ''robot'',
      SetInitialRelativePose ''arm'', SetRelativePose ''arm'', LinkInit ''upper_arm'',
      InitModel ''arm'', JointInit ''elbow'', Publish ''arm'' (JointMsg ''elbow''),
      LinkInit ''chassis'',
      InitModel ''robot'',
      JointInit ''shoulder'', Publish ''robot'' (JointMsg ''shoulder'')]"
  by (simp add: example_nested_def example_arm_def FillMsg_def)

text \<open>
  Claim C2. \<^verbatim>\<open>SimbodyModel::Load\<close> does what \<^verbatim>\<open>Model::Load\<close> does on the same element and
  nothing else: for every behaviour of \<^verbatim>\<open>Model::Load\<close>, every sdf element and every state,
  the two have the same effect.
\<close>

theorem SimbodyModel_Load_forwards:
  "SimbodyModel_Load Model_Load sdf st = Model_Load sdf st"
  by (simp add: SimbodyModel_Load_def)

text \<open>
  Claim C3. When no joint of the model throws in \<^verbatim>\<open>Init\<close>, the trace of
  \<^verbatim>\<open>SimbodyModel::Init\<close> ends with the initialisation of all joints of the list, in order,
  followed by one \<^verbatim>\<open>Publish\<close> on the model's joint publisher per joint, each with the
  message filled by that joint's \<^verbatim>\<open>FillMsg\<close>, in the order of the list: every
  publication comes after every joint has been initialised.
\<close>

theorem Init_publishes_every_joint:
  assumes "\<forall>j \<in> set (joints m). \<not> init_throws j"
  shows "Init eng m tr =
           tr @ before_joints eng m @
           map (\<lambda>j. JointInit (jname j)) (joints m) @
           map (\<lambda>j. Publish (mname m) (FillMsg j)) (joints m)"
proof -
  have "list_all (\<lambda>j. \<not> init_throws j) (joints m)"
    using assms by (simp add: list_all_iff)
  then show ?thesis
    using assms by (simp add: Init_trace [of eng m tr] joint_calls_ok)
qed

text \<open>Two joints that initialise: two messages, after both calls of \<^verbatim>\<open>Init\<close>.\<close>

theorem Init_publishes_every_joint_witness:
  "Init OtherPhysics example_robot [] =
     before_joints OtherPhysics example_robot @
     [JointInit ''shoulder'', JointInit ''wrist'',
      Publish ''robot'' (JointMsg ''shoulder''), Publish ''robot'' (JointMsg ''wrist'')]"
  using Init_publishes_every_joint [of example_robot OtherPhysics "[]"]
  by (simp add: example_robot_def FillMsg_def)

text \<open>
  Claim C9. When some joint of the model throws in \<^verbatim>\<open>Init\<close>, the joint list splits at
  the first such joint: the joints before it are initialised, it is called and throws,
  \<^verbatim>\<open>Init\<close> reports "Init joint failed" and returns. The trace ends there: the joints
  after it are not initialised and the model's joint loop publishes no message, not
  even for the joints whose \<^verbatim>\<open>Init\<close> had succeeded.
\<close>

theorem Init_joint_failure_publishes_nothing:
  assumes "\<exists>j \<in> set (joints m). init_throws j"
  shows "\<exists>ok bad rest.
           joints m = ok @ bad # rest \<and>
           (\<forall>j \<in> set ok. \<not> init_throws j) \<and> init_throws bad \<and>
           Init eng m tr =
             tr @ before_joints eng m @
             map (\<lambda>j. JointInit (jname j)) (ok @ [bad]) @ [GzErr ''Init joint failed'']"
proof -
  from assms obtain ok bad rest where
    split: "joints m = ok @ bad # rest" and bad: "init_throws bad"
    and ok: "\<forall>j \<in> set ok. \<not> init_throws j"
    using split_list_first_prop [of "joints m" init_throws] by blast
  have "\<not> list_all (\<lambda>j. \<not> init_throws j) (joints m)"
    using split bad by (simp add: list_all_iff)
  then have "Init eng m tr =
      tr @ before_joints eng m @
      map (\<lambda>j. JointInit (jname j)) (ok @ [bad]) @ [GzErr ''Init joint failed'']"
    using joint_calls_throw [OF ok bad, of rest]
    by (simp add: Init_trace [of eng m tr] split)
  with split ok bad show ?thesis by blast
qed

text \<open>
  The second of three joints throws: the third is never called and the robot's
  publisher is never used (the nested arm had published for its own joint before).
\<close>

theorem Init_joint_failure_publishes_nothing_witness:
  "Init SimbodyPhysics example_broken [] =
     [SetInitialRelativePose ''robot'', SetRelativePose ''robot'',
      LinkInit ''chassis'',
      SetInitialRelativePose ''arm'', SetRelativePose ''arm'', LinkInit ''upper_arm'',
      InitModel ''arm'', JointInit ''elbow'', Publish ''arm'' (JointMsg ''elbow''),
      InitModel ''robot'',
      JointInit ''shoulder'', JointInit ''wrist'', GzErr ''Init joint failed'']"
  using Init_joint_failure_publishes_nothing [of example_broken SimbodyPhysics "[]"]
  by (simp add: example_broken_def example_arm_def FillMsg_def)

section \<open>Properties of Visual\<close>

text \<open>
  The member functions of a constructed visual are stated for a visual whose scene node
  is a node of the scene manager, as it is after construction.
\<close>

subsection \<open>The loop over the attached objects, and the store\<close>

lemma for_index_take_drop: "for_index f i xs = take i xs @ map f (drop i xs)"
proof (induction f i xs rule: for_index.induct)
  case (1 f i xs)
  show ?case
  proof (cases "i < length xs")
    case True
    have "for_index f i xs = for_index f (Suc i) (xs[i := f (xs ! i)])"
      using True by (subst for_index.simps) simp
    also have "\<dots> = take (Suc i) (xs[i := f (xs ! i)]) @ map f (drop (Suc i) (xs[i := f (xs ! i)]))"
      using True by (rule "1.IH")
    also have "\<dots> = take i xs @ [f (xs ! i)] @ map f (drop (Suc i) xs)"
      using True by (simp add: take_Suc_conv_app_nth)
    also have "\<dots> = take i xs @ map f (drop i xs)"
      using True by (simp add: Cons_nth_drop_Suc [symmetric])
    finally show ?thesis .
  next
    case False
    then show ?thesis by (subst for_index.simps) simp
  qed
qed

lemma for_index_map: "for_index f 0 xs = map f xs"
  by (simp add: for_index_take_drop)

lemma getNode_putNode:
  "getNode og p = Some nd \<Longrightarrow> getNode (putNode og p nd') p = Some nd'"
  by (auto simp: getNode_def putNode_def split: option.splits if_splits)

lemma materials_putNode: "materials (putNode og p nd) = materials og"
  by (simp add: putNode_def split: option.splits)

lemma getNode_clone: "getNode (clone og nm) p = getNode og p"
  by (simp add: getNode_def clone_def split: option.splits)

subsection \<open>Cast shadows\<close>

text \<open>
  Claim C4. For every boolean \<open>s\<close>, with the rendering engine enabled and on a visual
  whose scene node exists, \<^verbatim>\<open>SetCastShadows(s)\<close> returns, leaves the number of attached
  objects as it was, and afterwards every attached object, at each index \<open>i\<close> below
  \<^verbatim>\<open>numAttachedObjects\<close>, has the cast-shadows flag \<open>s\<close> (and is otherwise unchanged). When
  the visual is static and has a static geometry, the flag of that geometry is \<open>s\<close> too.
\<close>

theorem SetCastShadows_all_attached:
  assumes "getNode og (sceneNode v) = Some nd"
  shows "\<exists>v' og' nd'.
           SetCastShadows True s v og = Some (v', og') \<and>
           sceneNode v' = sceneNode v \<and>
           getNode og' (sceneNode v') = Some nd' \<and>
           numAttachedObjects nd' = numAttachedObjects nd \<and>
           (\<forall>i < numAttachedObjects nd'.
              \<exists>ob. getAttachedObject nd' i = Some ob \<and> castShadows ob = s) \<and>
           attached nd' = map (\<lambda>ob. ob\<lparr>castShadows := s\<rparr>) (attached nd) \<and>
           (IsStatic v \<longrightarrow>
              (\<forall>g. staticGeom v = Some g \<longrightarrow>
                 staticGeom v' = Some (g\<lparr>sg_castShadows := s\<rparr>)))"
proof -
  let ?nd' = "nd\<lparr>attached := for_index (setCastShadows s) 0 (attached nd)\<rparr>"
  let ?og' = "putNode og (sceneNode v) ?nd'"
  let ?v' = "if IsStatic v \<and> staticGeom v \<noteq> None
             then v\<lparr>staticGeom := map_option (\<lambda>g. g\<lparr>sg_castShadows := s\<rparr>) (staticGeom v)\<rparr>
             else v"
  have run: "SetCastShadows True s v og = Some (?v', ?og')"
    using assms by (simp add: SetCastShadows_def Let_def)
  have same: "sceneNode ?v' = sceneNode v" by simp
  have node: "getNode ?og' (sceneNode ?v') = Some ?nd'"
    using assms by (simp only: same getNode_putNode)
  have objs: "attached ?nd' = map (\<lambda>ob. ob\<lparr>castShadows := s\<rparr>) (attached nd)"
    by (simp add: for_index_map setCastShadows_def)
  have num: "numAttachedObjects ?nd' = numAttachedObjects nd"
    by (simp add: numAttachedObjects_def objs)
  have each: "\<forall>i < numAttachedObjects ?nd'.
      \<exists>ob. getAttachedObject ?nd' i = Some ob \<and> castShadows ob = s"
    by (simp add: numAttachedObjects_def getAttachedObject_def objs)
  have static: "IsStatic v \<longrightarrow>
      (\<forall>g. staticGeom v = Some g \<longrightarrow> staticGeom ?v' = Some (g\<lparr>sg_castShadows := s\<rparr>))"
    by simp
  show ?thesis
    using run same node num each objs static by blast
qed


text \<open>On the example: both objects and the static geometry cast shadows afterwards.\<close>

theorem SetCastShadows_all_attached_witness:
  "map_option
     (\<lambda>(v', og'). (map castShadows (attached (nodes og' ! 1)),
                   map_option sg_castShadows (staticGeom v')))
     (SetCastShadows True True example_visual example_ogre) =
   Some ([True, True], Some True)"
  using SetCastShadows_all_attached [of example_ogre example_visual "nodes example_ogre ! 1" True]
  by (simp add: example_ogre_def example_visual_def blank_visual_def SetCastShadows_def
      getNode_def putNode_def IsStatic_def for_index_map setCastShadows_def)

subsection \<open>Material\<close>

text \<open>
  Claim C5. For a non-empty name \<open>m\<close> of an existing material, with the rendering engine
  enabled and on a visual whose scene node exists, \<^verbatim>\<open>SetMaterial(m)\<close> returns; the name
  \<^verbatim>\<open><sceneNodeName>_MATERIAL_<m>\<close> is then a known material, registered by the call unless
  it existed already (in which case the materials are unchanged); every attached object
  has that name as its material; and \<^verbatim>\<open>GetMaterialName()\<close> returns it. For the empty name
  the call changes nothing.
\<close>

theorem SetMaterial_clones_and_assigns:
  "(m \<noteq> [] \<and> resourceExists og m \<and> getNode og (sceneNode v) = Some nd \<longrightarrow>
      (\<exists>v' og' nd'.
         SetMaterial True m v og = Some (v', og') \<and>
         GetMaterialName v' = node_name nd @ ''_MATERIAL_'' @ m \<and>
         resourceExists og' (GetMaterialName v') \<and>
         (resourceExists og (GetMaterialName v') \<longrightarrow> materials og' = materials og) \<and>
         set (materials og') = insert (GetMaterialName v') (set (materials og)) \<and>
         getNode og' (sceneNode v') = Some nd' \<and>
         numAttachedObjects nd' = numAttachedObjects nd \<and>
         (\<forall>i < numAttachedObjects nd'.
            \<exists>ob. getAttachedObject nd' i = Some ob \<and> materialName ob = GetMaterialName v'))) \<and>
   SetMaterial en [] v og = Some (v, og)"
proof (intro conjI impI)
  show "SetMaterial en [] v og = Some (v, og)"
    by (simp add: SetMaterial_def)
next
  assume a: "m \<noteq> [] \<and> resourceExists og m \<and> getNode og (sceneNode v) = Some nd"
  define cloned where "cloned = node_name nd @ ''_MATERIAL_'' @ m"
  define og1 where "og1 = (if resourceExists og cloned then og else clone og cloned)"
  define nd' where "nd' = nd\<lparr>attached := for_index (assign_material cloned) 0 (attached nd)\<rparr>"
  define v' where "v' = v\<lparr>origMaterialName := m, myMaterialName := cloned\<rparr>"
  have node1: "getNode og1 (sceneNode v) = Some nd"
    using a by (simp add: og1_def getNode_clone)
  have run: "SetMaterial True m v og = Some (v', putNode og1 (sceneNode v) nd')"
    using a by (simp add: SetMaterial_def Let_def cloned_def og1_def nd'_def v'_def getNode_clone)
  have name: "GetMaterialName v' = cloned"
    by (simp add: GetMaterialName_def v'_def)
  have exists: "resourceExists (putNode og1 (sceneNode v) nd') cloned"
    by (simp add: resourceExists_def materials_putNode og1_def clone_def)
  have reuse: "resourceExists og cloned \<longrightarrow> materials (putNode og1 (sceneNode v) nd') = materials og"
    by (simp add: materials_putNode og1_def)
  have added: "set (materials (putNode og1 (sceneNode v) nd')) = insert cloned (set (materials og))"
    by (auto simp: materials_putNode og1_def clone_def resourceExists_def)
  have node': "getNode (putNode og1 (sceneNode v) nd') (sceneNode v') = Some nd'"
    using node1 by (simp add: v'_def getNode_putNode)
  have objs: "attached nd' = map (assign_material cloned) (attached nd)"
    by (simp add: nd'_def for_index_map)
  have num: "numAttachedObjects nd' = numAttachedObjects nd"
    by (simp add: numAttachedObjects_def objs)
  have each: "\<forall>i < numAttachedObjects nd'.
      \<exists>ob. getAttachedObject nd' i = Some ob \<and> materialName ob = cloned"
    by (simp add: numAttachedObjects_def getAttachedObject_def objs assign_material_def)
  show "\<exists>v' og' nd'.
         SetMaterial True m v og = Some (v', og') \<and>
         GetMaterialName v' = node_name nd @ ''_MATERIAL_'' @ m \<and>
         resourceExists og' (GetMaterialName v') \<and>
         (resourceExists og (GetMaterialName v') \<longrightarrow> materials og' = materials og) \<and>
         set (materials og') = insert (GetMaterialName v') (set (materials og)) \<and>
         getNode og' (sceneNode v') = Some nd' \<and>
         numAttachedObjects nd' = numAttachedObjects nd \<and>
         (\<forall>i < numAttachedObjects nd'.
            \<exists>ob. getAttachedObject nd' i = Some ob \<and> materialName ob = GetMaterialName v')"
    using run name exists reuse added node' num each
    unfolding cloned_def [symmetric] by (intro exI [of _ v'] exI [of _ "putNode og1 (sceneNode v) nd'"] exI [of _ nd']) simp
qed

text \<open>On the example: the clone is registered and given to both objects.\<close>

theorem SetMaterial_clones_and_assigns_witness:
  "map_option
     (\<lambda>(v', og'). (GetMaterialName v', materials og',
                   map materialName (attached (nodes og' ! 1))))
     (SetMaterial True ''Gazebo/Red'' example_visual example_ogre) =
   Some (''box_MATERIAL_Gazebo/Red'', [''Gazebo/Red'', ''box_MATERIAL_Gazebo/Red''],
         [''box_MATERIAL_Gazebo/Red'', ''box_MATERIAL_Gazebo/Red''])"
  using SetMaterial_clones_and_assigns
    [of "''Gazebo/Red''" example_ogre example_visual "nodes example_ogre ! 1" True]
  by (simp add: example_ogre_def example_visual_def blank_visual_def SetMaterial_def
      getNode_def putNode_def resourceExists_def clone_def for_index_map assign_material_def
      GetMaterialName_def Let_def)


subsection \<open>Construction\<close>

lemma construct_created:
  "getNode og p \<noteq> None \<Longrightarrow> \<not> hasSceneNode og nm \<Longrightarrow>
   created_child nm p og (construct nm p og)"
  by (auto simp add: created_child_def construct_def createChildSceneNode_def new_node_def
      Visual_Init_def blank_visual_def GetSceneNode_def)

text \<open>
  Claim C7, amended. Given a name that no scene node of the scene manager has yet, and a
  parent visual whose scene node exists, a parent scene node that exists, or a scene
  whose root scene node exists (none of them null), the constructor returns a visual
  with the given name; it has created exactly one scene node, named with that name, as a child of
  the parent's scene node (of the root scene node, for a scene); and \<^verbatim>\<open>GetSceneNode()\<close>
  returns that node.
\<close>

theorem constructors_create_child_node:
  "(getNode og (GetSceneNode pv) \<noteq> None \<and> \<not> hasSceneNode og nm \<longrightarrow>
      created_child nm (GetSceneNode pv) og (Visual_Visual nm (Some pv) og)) \<and>
   (getNode og (Some p) \<noteq> None \<and> \<not> hasSceneNode og nm \<longrightarrow>
      created_child nm (Some p) og (Visual_SceneNode nm (Some p) og)) \<and>
   (getNode og (Some (rootSceneNode sc)) \<noteq> None \<and> \<not> hasSceneNode og nm \<longrightarrow>
      created_child nm (Some (rootSceneNode sc)) og (Visual_Scene nm (Some sc) og))"
  by (simp add: Visual_Visual_def Visual_SceneNode_def Visual_Scene_def construct_created)

text \<open>
  The three constructors on the example scene, with a name that is free there: the new
  node is node 2.
\<close>

theorem constructors_create_child_node_witness:
  "Visual_Visual ''lamp'' (Some example_visual) example_ogre =
     Some ((blank_visual ''lamp'')\<lparr>sceneNode := Some 2\<rparr>,
           example_ogre\<lparr>nodes := nodes example_ogre @ [new_node ''lamp'' (Some 1)]\<rparr>) \<and>
   map_option (GetSceneNode \<circ> fst) (Visual_SceneNode ''lamp'' (Some 1) example_ogre) = Some (Some 2) \<and>
   map_option (GetSceneNode \<circ> fst)
     (Visual_Scene ''lamp'' (Some \<lparr>rootSceneNode = 0\<rparr>) example_ogre) = Some (Some 2)"
  using constructors_create_child_node
    [of example_ogre example_visual "''lamp''" 1 "\<lparr>rootSceneNode = 0\<rparr>"]
  by (simp add: example_ogre_def example_visual_def blank_visual_def Visual_Visual_def
      Visual_SceneNode_def Visual_Scene_def construct_def createChildSceneNode_def
      getNode_def GetSceneNode_def Visual_Init_def new_node_def hasSceneNode_def)

text \<open>
  With a null parent the constructor does not create a node: after the report "invalid
  parent" it calls \<^verbatim>\<open>createChildSceneNode\<close> through the null \<^verbatim>\<open>pnode\<close>; a null scene node
  and a null scene are dereferenced likewise. With the name of an existing scene node
  (a second visual \<open>box\<close> under the visual \<open>box\<close>) Ogre throws and no node is created.
\<close>

theorem constructor_null_parent_counterexample:
  "Visual_Visual ''lamp'' None example_ogre = None \<and>
   Visual_SceneNode ''lamp'' None example_ogre = None \<and>
   Visual_Scene ''lamp'' None example_ogre = None \<and>
   Visual_Visual ''box'' (Some example_visual) example_ogre = None"
  by (simp add: Visual_Visual_def Visual_SceneNode_def Visual_Scene_def construct_def
      createChildSceneNode_def getNode_def GetSceneNode_def hasSceneNode_def
      example_ogre_def example_visual_def blank_visual_def)

subsection \<open>Pose\<close>

text \<open>
  Claim C6, amended. For every pose \<open>p\<close>, with the rendering engine enabled and on a
  visual whose scene node exists, \<^verbatim>\<open>SetPose(p)\<close> returns; the position of the scene node is
  then the position of \<open>p\<close> converted componentwise to \<^verbatim>\<open>Ogre::Real\<close>, and its orientation
  is the rotation of \<open>p\<close> converted componentwise to \<^verbatim>\<open>Ogre::Real\<close> and normalised by Ogre;
  \<^verbatim>\<open>GetPose()\<close> returns these stored components converted back. So \<^verbatim>\<open>GetPose()\<close> returns
  \<open>p\<close> exactly when the conversion to \<^verbatim>\<open>Ogre::Real\<close> and back leaves the position of \<open>p\<close>
  unchanged and the conversion, the normalisation and the conversion back leave its
  rotation unchanged.
\<close>

theorem SetPose_GetPose:
  assumes "getNode og (sceneNode v) = Some nd"
  shows "\<exists>og'.
           SetPose sc True p v og = Some og' \<and>
           getNode og' (sceneNode v) =
             Some (nd\<lparr>position := narrow_vector sc (pos p),
                      orientation := normalise sc (narrow_quatern sc (rot p))\<rparr>) \<and>
           GetPose sc True v og' =
             Some (Pose3d (widen_vector sc (narrow_vector sc (pos p)))
                     (widen_quaternion sc (normalise sc (narrow_quatern sc (rot p))))) \<and>
           ((GetPose sc True v og' = Some p) =
              (widen_vector sc (narrow_vector sc (pos p)) = pos p \<and>
               widen_quaternion sc (normalise sc (narrow_quatern sc (rot p))) = rot p))"
proof -
  let ?nd1 = "nd\<lparr>position := narrow_vector sc (pos p)\<rparr>"
  let ?og1 = "putNode og (sceneNode v) ?nd1"
  let ?nd2 = "?nd1\<lparr>orientation := normalise sc (narrow_quatern sc (rot p))\<rparr>"
  let ?og2 = "putNode ?og1 (sceneNode v) ?nd2"
  have pos_set: "SetPosition sc (pos p) v og = Some ?og1"
    using assms by (simp add: SetPosition_def)
  have node1: "getNode ?og1 (sceneNode v) = Some ?nd1"
    using assms by (rule getNode_putNode)
  have rot_set: "SetRotation sc True (rot p) v ?og1 = Some ?og2"
    using node1 by (simp add: SetRotation_def)
  have set: "SetPose sc True p v og = Some ?og2"
    by (simp add: SetPose_def pos_set rot_set)
  have node2: "getNode ?og2 (sceneNode v) = Some ?nd2"
    using node1 by (rule getNode_putNode)
  have get: "GetPose sc True v ?og2 =
      Some (Pose3d (widen_vector sc (narrow_vector sc (pos p)))
              (widen_quaternion sc (normalise sc (narrow_quatern sc (rot p)))))"
    by (simp add: GetPose_def GetPosition_def GetRotation_def node2)
  have same: "(GetPose sc True v ?og2 = Some p) =
      (widen_vector sc (narrow_vector sc (pos p)) = pos p \<and>
       widen_quaternion sc (normalise sc (narrow_quatern sc (rot p))) = rot p)"
    unfolding get by (cases p) auto
  show ?thesis
    using set node2 get same by blast
qed

text \<open>
  A pose whose components are small integers, with a rotation of norm 1, written to the
  example node and read back unchanged.
\<close>

theorem SetPose_GetPose_witness:
  "map_option (GetPose exact_scalars True example_visual)
     (SetPose exact_scalars True (Pose3d (Vector3 1 2 3) (Quatern 0 1 0 0))
        example_visual example_ogre) =
   Some (Some (Pose3d (Vector3 1 2 3) (Quatern 0 1 0 0)))"
  using SetPose_GetPose [of example_ogre example_visual "nodes example_ogre ! 1"
      exact_scalars "Pose3d (Vector3 1 2 3) (Quatern 0 1 0 0)"]
  by (simp add: example_ogre_def example_visual_def blank_visual_def SetPose_def
      SetPosition_def SetRotation_def GetPose_def GetPosition_def GetRotation_def
      getNode_def putNode_def exact_scalars_def exact_normalise_def narrow_vector_def
      widen_vector_def narrow_quatern_def widen_quaternion_def)

text \<open>
  A rotation that is not of norm 1: \<^verbatim>\<open>setOrientation(2, 0, 0, 0)\<close> stores the normalised
  quaternion, and \<^verbatim>\<open>GetPose()\<close> returns the rotation \<^verbatim>\<open>(1, 0, 0, 0)\<close>, not the one that was
  set. Every number in this computation is represented exactly by a \<^verbatim>\<open>float\<close>.
\<close>

theorem SetPose_GetPose_counterexample:
  "map_option (GetPose exact_scalars True example_visual)
     (SetPose exact_scalars True (Pose3d (Vector3 0 0 0) (Quatern 2 0 0 0))
        example_visual example_ogre) =
   Some (Some (Pose3d (Vector3 0 0 0) (Quatern 1 0 0 0)))"
  by (simp add: example_ogre_def example_visual_def blank_visual_def SetPose_def
      SetPosition_def SetRotation_def GetPose_def GetPosition_def GetRotation_def
      getNode_def putNode_def exact_scalars_def exact_normalise_def narrow_vector_def
      widen_vector_def narrow_quatern_def widen_quaternion_def)

subsection \<open>Transparency\<close>

lemma clamp_bounds:
  assumes "t \<noteq> NaN"
  shows "float_le (Fin 0) (std_min (std_max t (Fin 0)) (Fin 1)) \<and>
         float_le (std_min (std_max t (Fin 0)) (Fin 1)) (Fin 1)"
  using assms by (cases t) (auto simp: std_min_def std_max_def float_le_def)

text \<open>
  Claim C8, amended. For every float \<open>t\<close>, with the rendering engine enabled and on a
  visual whose scene node exists, \<^verbatim>\<open>SetTransparency(t)\<close> returns, the stored transparency
  is \<^verbatim>\<open>std::min(std::max(t, 0.0f), 1.0f)\<close> and \<^verbatim>\<open>GetTransparency()\<close> returns it; when \<open>t\<close> is not
  a NaN, that value lies between 0 and 1.
\<close>

theorem SetTransparency_clamps:
  assumes "getNode og (sceneNode v) = Some nd"
  shows "\<exists>v' og'.
           SetTransparency True t v og = Some (v', og') \<and>
           transparency v' = std_min (std_max t (Fin 0)) (Fin 1) \<and>
           GetTransparency v' = std_min (std_max t (Fin 0)) (Fin 1) \<and>
           (t \<noteq> NaN \<longrightarrow>
              float_le (Fin 0) (GetTransparency v') \<and> float_le (GetTransparency v') (Fin 1))"
  using assms clamp_bounds [of t]
  by (simp add: SetTransparency_def Let_def GetTransparency_def)

text \<open>Above the range, inside it, and at minus infinity.\<close>

theorem SetTransparency_clamps_witness:
  "map_option (GetTransparency \<circ> fst)
     (SetTransparency True (Fin 3) example_visual example_ogre) = Some (Fin 1) \<and>
   map_option (GetTransparency \<circ> fst)
     (SetTransparency True (Fin (1/4)) example_visual example_ogre) = Some (Fin (1/4)) \<and>
   map_option (GetTransparency \<circ> fst)
     (SetTransparency True MInf example_visual example_ogre) = Some (Fin 0)"
  using SetTransparency_clamps [of example_ogre example_visual "nodes example_ogre ! 1" "Fin 3"]
  by (simp add: example_ogre_def example_visual_def blank_visual_def SetTransparency_def
      getNode_def Let_def GetTransparency_def std_min_def std_max_def)

text \<open>
  A NaN passes through both comparisons: the stored transparency is the NaN, which is
  neither at least 0 nor at most 1.
\<close>

theorem SetTransparency_NaN_counterexample:
  "map_option (GetTransparency \<circ> fst)
     (SetTransparency True NaN example_visual example_ogre) = Some NaN \<and>
   \<not> float_le (Fin 0) NaN \<and> \<not> float_le NaN (Fin 1)"
  by (simp add: example_ogre_def example_visual_def blank_visual_def SetTransparency_def
      getNode_def Let_def GetTransparency_def std_min_def std_max_def float_le_def)

subsection \<open>Accessors with the rendering engine disabled\<close>

text \<open>
  Claim C10. With the rendering engine disabled, whatever the visual and the state of
  the scene nodes (the visual's scene node may even be null), \<^verbatim>\<open>GetNumAttached()\<close> returns
  0, \<^verbatim>\<open>GetAttached(n)\<close> returns \<^verbatim>\<open>NULL\<close> for every \<open>n\<close>, and \<^verbatim>\<open>GetPosition()\<close> returns the
  zero vector.
\<close>

theorem disabled_accessors_return_defaults:
  "GetNumAttached False v og = Some 0 \<and>
   GetAttached False n v og = Some None \<and>
   GetPosition sc False v og = Some (Vector3 0 0 0)"
  by (simp add: GetNumAttached_def GetAttached_def GetPosition_def Vector3_default_def)

end
